theory Spec2Isabelle
  imports Main
begin

section \<open>JavaScript values\<close>

text \<open>
  The values that flow through \<^verbatim>\<open>src/index.ts\<close>: request parameters, response bodies,
  configuration fields typed \<^verbatim>\<open>any\<close>. An object is the list of its own enumerable
  properties in property order. Numbers are the integers (the only numbers the signing
  code computes: epoch milliseconds and whole seconds).
\<close>

datatype jsval =
    JUndefined
  | JNull
  | JBool bool
  | JNum int
  | JStr string
  | JArr "jsval list"
  | JObj "(string \<times> jsval) list"

text \<open>What a \<^verbatim>\<open>throw\<close> carries: \<^verbatim>\<open>new Error(msg)\<close>, or the engine's TypeError.\<close>

datatype error = Error string | TypeError string

text \<open>
  A call either throws to its caller or returns. An \<^verbatim>\<open>async\<close> function never throws to
  its caller: it returns a promise, which settles as rejected or fulfilled.
\<close>

datatype 'a completion = Throws error | Returns 'a

datatype 'a promise = Rejected error | Fulfilled 'a

definition async :: "error + 'a \<Rightarrow> 'a promise completion" where
  "async body = Returns (case body of Inl e \<Rightarrow> Rejected e | Inr v \<Rightarrow> Fulfilled v)"

text \<open>\<^verbatim>\<open>!v\<close> is \<open>\<not> truthy v\<close>.\<close>

fun truthy :: "jsval \<Rightarrow> bool" where
  "truthy JUndefined = False"
| "truthy JNull = False"
| "truthy (JBool b) = b"
| "truthy (JNum n) = (n \<noteq> 0)"
| "truthy (JStr s) = (s \<noteq> [])"
| "truthy (JArr xs) = True"
| "truthy (JObj ps) = True"

fun lookup_prop :: "(string \<times> jsval) list \<Rightarrow> string \<Rightarrow> jsval" where
  "lookup_prop [] k = JUndefined"
| "lookup_prop ((k', v) # ps) k = (if k' = k then v else lookup_prop ps k)"

text \<open>
  \<^verbatim>\<open>v.name\<close>: a TypeError on \<^verbatim>\<open>undefined\<close> and \<^verbatim>\<open>null\<close>; \<^verbatim>\<open>length\<close> of a string or an
  array; an own property of an object; \<^verbatim>\<open>undefined\<close> otherwise.
\<close>

fun get_member :: "jsval \<Rightarrow> string \<Rightarrow> error + jsval" where
  "get_member JUndefined k = Inl (TypeError (''Cannot read property '' @ k @ '' of undefined''))"
| "get_member JNull k = Inl (TypeError (''Cannot read property '' @ k @ '' of null''))"
| "get_member (JStr s) k = Inr (if k = ''length'' then JNum (int (length s)) else JUndefined)"
| "get_member (JArr xs) k = Inr (if k = ''length'' then JNum (int (length xs)) else JUndefined)"
| "get_member (JObj ps) k = Inr (lookup_prop ps k)"
| "get_member (JBool b) k = Inr JUndefined"
| "get_member (JNum n) k = Inr JUndefined"

text \<open>
  Defining a property with a string key on an object: an existing key keeps its place and
  takes the new value, a new key goes to the end.
\<close>

fun set_prop :: "string \<Rightarrow> jsval \<Rightarrow> (string \<times> jsval) list \<Rightarrow> (string \<times> jsval) list" where
  "set_prop k v [] = [(k, v)]"
| "set_prop k v ((k', v') # ps) = (if k' = k then (k, v) # ps else (k', v') # set_prop k v ps)"

text \<open>Decimal digits of a number, as the keys of array elements and in string conversion.\<close>

definition digit :: "nat \<Rightarrow> char" where
  "digit d = ''0123456789'' ! d"

fun show_nat :: "nat \<Rightarrow> string" where
  "show_nat n = (if n < 10 then [digit n] else show_nat (n div 10) @ [digit (n mod 10)])"

fun indexed :: "nat \<Rightarrow> jsval list \<Rightarrow> (string \<times> jsval) list" where
  "indexed i [] = []"
| "indexed i (x # xs) = (show_nat i, x) # indexed (Suc i) xs"

text \<open>
  \<^verbatim>\<open>{...v}\<close>: the own enumerable properties of \<^verbatim>\<open>v\<close>. Nothing for \<^verbatim>\<open>undefined\<close>, \<^verbatim>\<open>null\<close>,
  booleans and numbers; the indexed characters of a string and elements of an array.
\<close>

fun spread :: "jsval \<Rightarrow> (string \<times> jsval) list" where
  "spread (JObj ps) = ps"
| "spread (JStr s) = indexed 0 (map (\<lambda>c. JStr [c]) s)"
| "spread (JArr xs) = indexed 0 xs"
| "spread JUndefined = []"
| "spread JNull = []"
| "spread (JBool b) = []"
| "spread (JNum n) = []"

text \<open>A template literal \<^verbatim>\<open>${v}\<close> of an optional string: \<^verbatim>\<open>undefined\<close> prints as such.\<close>

fun template :: "string option \<Rightarrow> string" where
  "template None = ''undefined''"
| "template (Some s) = s"

section \<open>The world: wall clock and observable actions\<close>

text \<open>
  \<^verbatim>\<open>new Date().getTime()\<close> reads the wall clock: \<open>clock w k\<close> is the value of the \<open>k\<close>-th
  reading (epoch milliseconds), \<open>reads w\<close> counts the readings taken so far. The trace
  records, in order, the calls the code makes to its collaborators.
\<close>

datatype event =
    ClockRead int
  | Serialize jsval
  | SignURL string int jsval
  | JSONBigParse jsval
  | NewCookieJar
  | AxiosCreate
  | CookieJarSupport
  | UseRequestInterceptor

record world =
  clock :: "nat \<Rightarrow> int"
  reads :: nat
  trace :: "event list"

definition emit :: "event \<Rightarrow> world \<Rightarrow> world" where
  "emit e w = w\<lparr>trace := trace w @ [e]\<rparr>"

definition getTime :: "world \<Rightarrow> int \<times> world" where
  "getTime w = (clock w (reads w), emit (ClockRead (clock w (reads w))) (w\<lparr>reads := Suc (reads w)\<rparr>))"

section \<open>Response decoding\<close>

text \<open>
  \<^verbatim>\<open>
  transformResponse = (data: any) => {
    if (!data || !data.length) {
      return data;
    }
    return JSONBig({ storeAsString: true }).parse(data);
  }
  \<close>
  \<open>JSONBig_parse\<close> stands for \<^verbatim>\<open>JSONBig({ storeAsString: true }).parse\<close> of the
  json-bigint package, which is not part of this repository.
\<close>

definition transformResponse ::
  "(jsval \<Rightarrow> error + jsval) \<Rightarrow> jsval \<Rightarrow> world \<Rightarrow> (error + jsval) \<times> world" where
  "transformResponse JSONBig_parse data w =
     (if \<not> truthy data then (Inr data, w)
      else case get_member data ''length'' of
             Inl e \<Rightarrow> (Inl e, w)
           | Inr len \<Rightarrow>
               if \<not> truthy len then (Inr data, w)
               else (JSONBig_parse data, emit (JSONBigParse data) w))"

section \<open>Configuration objects\<close>

text \<open>
  \<^verbatim>\<open>${v}\<close> in a template literal: the string conversion of a value, which can throw.
  \<^item> A number prints its decimal digits: the conversion of an integer of magnitude below
    \<open>10^21\<close> (beyond that bound JavaScript prints an exponent).
  \<^item> An array prints its elements separated by commas, \<^verbatim>\<open>undefined\<close> and \<^verbatim>\<open>null\<close> elements
    as nothing; the first element that cannot be converted throws.
  \<^item> An object without an own \<^verbatim>\<open>toString\<close> prints as \<^verbatim>\<open>[object Object]\<close>. An own
    \<^verbatim>\<open>toString\<close> property is not callable (no value here is a function), and the
    conversion then finds no primitive and throws a TypeError.
\<close>

definition show_int :: "int \<Rightarrow> string" where
  "show_int n = (if n < 0 then ''-'' @ show_nat (nat (- n)) else show_nat (nat n))"

fun join :: "string \<Rightarrow> string list \<Rightarrow> string" where
  "join sep [] = []"
| "join sep [s] = s"
| "join sep (s # t # ss) = s @ sep @ join sep (t # ss)"

text \<open>The results of a sequence of steps, up to the first one that throws.\<close>

fun collect :: "(error + 'a) list \<Rightarrow> error + 'a list" where
  "collect [] = Inr []"
| "collect (Inl e # rs) = Inl e"
| "collect (Inr x # rs) = (case collect rs of Inl e \<Rightarrow> Inl e | Inr xs \<Rightarrow> Inr (x # xs))"

fun to_string :: "jsval \<Rightarrow> error + string" where
  "to_string JUndefined = Inr ''undefined''"
| "to_string JNull = Inr ''null''"
| "to_string (JBool b) = Inr (if b then ''true'' else ''false'')"
| "to_string (JNum n) = Inr (show_int n)"
| "to_string (JStr s) = Inr s"
| "to_string (JArr xs) =
     (case collect (map (\<lambda>x. if x = JUndefined \<or> x = JNull then Inr [] else to_string x) xs) of
        Inl e \<Rightarrow> Inl e
      | Inr ss \<Rightarrow> Inr (join '','' ss))"
| "to_string (JObj ps) =
     (if ''toString'' \<in> set (map fst ps)
      then Inl (TypeError ''Cannot convert object to primitive value'')
      else Inr ''[object Object]'')"

text \<open>\<^verbatim>\<open>${v.name}\<close>: the member is read, then converted.\<close>

definition member_string :: "jsval \<Rightarrow> string \<Rightarrow> error + string" where
  "member_string v k = (case get_member v k of Inl e \<Rightarrow> Inl e | Inr x \<Rightarrow> to_string x)"

datatype cookie_jar = CookieJar "(string \<times> string) list"

text \<open>
  \<^verbatim>\<open>AxiosRequestConfig\<close>: every field is optional, \<open>None\<close> is an absent key
  (\<open>http_method\<close> is its \<^verbatim>\<open>method\<close>, \<open>transformResponse_field\<close> its \<^verbatim>\<open>transformResponse\<close>).
  The record is extensible: its \<open>more\<close> part holds the fields not named here. The
  serializer is a callback of the caller: it returns the query string or throws.
\<close>

record config =
  url :: "string option"
  http_method :: "string option"
  baseURL :: "string option"
  headers :: "jsval option"
  params :: "jsval option"
  data :: "jsval option"
  paramsSerializer :: "(jsval \<Rightarrow> error + string) option"
  transformResponse_field :: "(jsval \<Rightarrow> world \<Rightarrow> (error + jsval) \<times> world) option"
  jar :: "cookie_jar option"
  withCredentials :: "bool option"

text \<open>Reading an optional field: an absent key reads as \<^verbatim>\<open>undefined\<close>.\<close>

fun field :: "jsval option \<Rightarrow> jsval" where
  "field None = JUndefined"
| "field (Some v) = v"

text \<open>\<^verbatim>\<open>{ k: a, ...b }\<close> for one key: the later object wins where it has the key.\<close>

fun override :: "'a option \<Rightarrow> 'a option \<Rightarrow> 'a option" where
  "override a None = a"
| "override a (Some v) = Some v"

text \<open>
  \<^verbatim>\<open>TikTokAPIConfig\<close> as the caller supplies it. \<^verbatim>\<open>typeof apiConfig.signURL\<close> is
  \<^verbatim>\<open>'function'\<close> exactly for \<open>Function f\<close>; the signer \<open>f url ts device_id\<close> is
  asynchronous and yields the signed URL or fails.
\<close>

type_synonym signer = "string \<Rightarrow> int \<Rightarrow> jsval \<Rightarrow> error + string"

datatype sign_field = NotFunction jsval | Function signer

record api_config =
  api_baseURL :: "string option"
  api_host :: "string option"
  api_userAgent :: "string option"
  api_signURL :: sign_field

text \<open>\<^verbatim>\<open>this.config\<close>, \<^verbatim>\<open>this.request\<close> and the client instance.\<close>

record tiktok_config =
  cfg_baseURL :: string
  cfg_host :: string
  cfg_userAgent :: string
  signURL :: signer

record axios_instance =
  defaults :: config

record client =
  this_config :: tiktok_config
  cookieJar :: cookie_jar
  request :: axios_instance

section \<open>The constructor\<close>

text \<open>
  \<^verbatim>\<open>
  constructor(reqParams, apiConfig, requestConfig?) {
    if (typeof apiConfig.signURL !== 'function') {
      throw new Error('You must supply a signURL function to the TikTokAPI config');
    }
    this.config = { baseURL: 'https://api2.musical.ly/', host: 'api2.musical.ly',
      userAgent: `com.zhiliaoapp.musically/${reqParams.manifest_version_code}` + ...,
      ...apiConfig };
    this.cookieJar = new CookieJar();
    this.request = axios.create({ paramsSerializer: paramsSerializer(paramsOrder),
      baseURL: this.config.baseURL, headers: {...}, jar: this.cookieJar,
      params: reqParams, transformResponse: this.transformResponse,
      withCredentials: true, ...requestConfig });
    axiosCookieJarSupport(this.request);
    this.request.interceptors.request.use(this.signRequest);
  }
  \<close>
  \<open>serializer\<close> stands for \<^verbatim>\<open>paramsSerializer(paramsOrder)\<close> of \<^verbatim>\<open>./params\<close>, which is not
  among the sources. The defaults of the instance are the object given to
  \<^verbatim>\<open>axios.create\<close>.
\<close>

definition default_userAgent :: "jsval \<Rightarrow> error + string" where
  "default_userAgent reqParams =
     (case member_string reqParams ''manifest_version_code'' of
        Inl e \<Rightarrow> Inl e
      | Inr mvc \<Rightarrow>
     (case member_string reqParams ''os_version'' of
        Inl e \<Rightarrow> Inl e
      | Inr osv \<Rightarrow>
     (case member_string reqParams ''language'' of
        Inl e \<Rightarrow> Inl e
      | Inr lang \<Rightarrow>
     (case member_string reqParams ''region'' of
        Inl e \<Rightarrow> Inl e
      | Inr reg \<Rightarrow>
     (case member_string reqParams ''device_type'' of
        Inl e \<Rightarrow> Inl e
      | Inr dev \<Rightarrow>
          Inr (''com.zhiliaoapp.musically/'' @ mvc
               @ '' (Linux; U; Android '' @ osv @ ''; '' @ lang @ ''_''
               @ reg @ '';'' @ '' '' @ dev
               @ ''; Build/NHG47Q; Cronet/58.0.2991.0)''))))))"

definition spread_config :: "config \<Rightarrow> config option \<Rightarrow> config" where
  "spread_config a b =
     (case b of
        None \<Rightarrow> a
      | Some c \<Rightarrow>
          \<lparr> url = override (url a) (url c),
            http_method = override (http_method a) (http_method c),
            baseURL = override (baseURL a) (baseURL c),
            headers = override (headers a) (headers c),
            params = override (params a) (params c),
            data = override (data a) (data c),
            paramsSerializer = override (paramsSerializer a) (paramsSerializer c),
            transformResponse_field =
              override (transformResponse_field a) (transformResponse_field c),
            jar = override (jar a) (jar c),
            withCredentials = override (withCredentials a) (withCredentials c) \<rparr>)"

definition constructor ::
  "(jsval \<Rightarrow> error + string) \<Rightarrow> (jsval \<Rightarrow> error + jsval) \<Rightarrow>
   jsval \<Rightarrow> api_config \<Rightarrow> config option \<Rightarrow> world \<Rightarrow> client completion \<times> world" where
  "constructor serializer JSONBig_parse reqParams apiConfig requestConfig w =
     (case api_signURL apiConfig of
        NotFunction v \<Rightarrow>
          (Throws (Error ''You must supply a signURL function to the TikTokAPI config''), w)
      | Function f \<Rightarrow>
          (case default_userAgent reqParams of
             Inl e \<Rightarrow> (Throws e, w)
           | Inr ua \<Rightarrow>
               let this_cfg =
                     \<lparr> cfg_baseURL =
                         (case api_baseURL apiConfig of
                            None \<Rightarrow> ''https://api2.musical.ly/'' | Some b \<Rightarrow> b),
                       cfg_host =
                         (case api_host apiConfig of None \<Rightarrow> ''api2.musical.ly'' | Some h \<Rightarrow> h),
                       cfg_userAgent =
                         (case api_userAgent apiConfig of None \<Rightarrow> ua | Some u \<Rightarrow> u),
                       signURL = f \<rparr>;
                   w1 = emit NewCookieJar w;
                   created =
                     spread_config
                       \<lparr> url = None,
                         http_method = None,
                         baseURL = Some (cfg_baseURL this_cfg),
                         headers =
                           Some (JObj [(''host'', JStr (cfg_host this_cfg)),
                                       (''connection'', JStr ''keep-alive''),
                                       (''accept-encoding'', JStr ''gzip''),
                                       (''user-agent'', JStr (cfg_userAgent this_cfg))]),
                         params = Some reqParams,
                         data = None,
                         paramsSerializer = Some serializer,
                         transformResponse_field = Some (transformResponse JSONBig_parse),
                         jar = Some (CookieJar []),
                         withCredentials = Some True \<rparr>
                       requestConfig;
                   w2 = emit AxiosCreate w1;
                   w3 = emit CookieJarSupport w2;
                   w4 = emit UseRequestInterceptor w3
               in (Returns \<lparr> this_config = this_cfg,
                              cookieJar = CookieJar [],
                              request = \<lparr> defaults = created \<rparr> \<rparr>, w4)))"

section \<open>The signing interceptor\<close>

text \<open>
  \<^verbatim>\<open>
  private signRequest = async (config) => {
    if (typeof config.paramsSerializer !== 'function') {
      throw new Error('Missing required paramsSerializer function');
    }
    const ts = Math.floor((new Date()).getTime() / 1000);
    const params = { ...config.params, ts, _rticket: new Date().getTime() };
    const url = `${config.baseURL}${config.url}?${config.paramsSerializer(params)}`;
    const signedURL = await this.config.signURL(url, ts, this.request.defaults.params.device_id);
    return { ...config, url: signedURL, params: {} };
  }
  \<close>
  The function is \<^verbatim>\<open>async\<close>: a \<^verbatim>\<open>throw\<close> in its body, a throw of the serializer it calls
  and a failure of the awaited signer reject the promise it returns. \<^verbatim>\<open>Math.floor(t / 1000)\<close> is \<open>t div 1000\<close> on the integer
  milliseconds a clock reading is.
\<close>

definition signRequest ::
  "client \<Rightarrow> 'a config_scheme \<Rightarrow> world \<Rightarrow> 'a config_scheme promise completion \<times> world" where
  "signRequest this cfg w =
     (case paramsSerializer cfg of
        None \<Rightarrow> (async (Inl (Error ''Missing required paramsSerializer function'')), w)
      | Some serializer \<Rightarrow>
          let (t1, w1) = getTime w;
              ts = t1 div 1000;
              (t2, w2) = getTime w1;
              ps = JObj (set_prop ''_rticket'' (JNum t2)
                          (set_prop ''ts'' (JNum ts) (spread (field (params cfg)))));
              w3 = emit (Serialize ps) w2
          in (case serializer ps of
                Inl e \<Rightarrow> (async (Inl e), w3)
              | Inr query \<Rightarrow>
                  (let u = template (baseURL cfg) @ template (url cfg) @ ''?'' @ query
                   in (case get_member (field (params (defaults (request this)))) ''device_id'' of
                         Inl e \<Rightarrow> (async (Inl e), w3)
                       | Inr device_id \<Rightarrow>
                           (let w4 = emit (SignURL u ts device_id) w3
                            in (case signURL (this_config this) u ts device_id of
                                  Inl e \<Rightarrow> (async (Inl e), w4)
                                | Inr signedURL \<Rightarrow>
                                    (async (Inr (cfg\<lparr>url := Some signedURL,
                                                     params := Some (JObj [])\<rparr>)),
                                     w4)))))))"

section \<open>Observing a run\<close>

text \<open>
  What a trace shows: the invocations of the signer with their three arguments, and the
  parameter sets handed to the serializer, both in order.
\<close>

fun sign_calls :: "event list \<Rightarrow> (string \<times> int \<times> jsval) list" where
  "sign_calls [] = []"
| "sign_calls (SignURL u ts d # es) = (u, ts, d) # sign_calls es"
| "sign_calls (e # es) = sign_calls es"

fun serialized :: "event list \<Rightarrow> jsval list" where
  "serialized [] = []"
| "serialized (Serialize ps # es) = ps # serialized es"
| "serialized (e # es) = serialized es"

text \<open>An error is surfaced synchronously when the call itself throws to its caller.\<close>

fun throws_synchronously :: "'a completion \<Rightarrow> bool" where
  "throws_synchronously (Throws e) = True"
| "throws_synchronously (Returns v) = False"

section \<open>A concrete client\<close>

text \<open>
  A serializer in the style of a query string, a signer that appends a token, a clock that
  advances seven milliseconds per reading, and a feed request whose caller supplied its own
  \<^verbatim>\<open>ts\<close>.
\<close>

definition ex_serializer :: "jsval \<Rightarrow> error + string" where
  "ex_serializer v =
     (case collect (map (\<lambda>(k, x). case to_string x of
                                     Inl e \<Rightarrow> Inl e
                                   | Inr s \<Rightarrow> Inr (k @ ''='' @ s)) (spread v)) of
        Inl e \<Rightarrow> Inl e
      | Inr pairs \<Rightarrow> Inr (join ''&'' pairs))"

definition ex_signer :: signer where
  "ex_signer u ts device_id = Inr (u @ ''&as=a1&cp=b2'')"

definition ex_world :: world where
  "ex_world = \<lparr> clock = (\<lambda>k. 1541203200999 + 7 * int k), reads = 0, trace = [] \<rparr>"

definition ex_reqParams :: jsval where
  "ex_reqParams =
     JObj [(''manifest_version_code'', JStr ''2018080704''), (''os_version'', JStr ''7.1.2''),
           (''language'', JStr ''en''), (''region'', JStr ''US''),
           (''device_type'', JStr ''Pixel''), (''device_id'', JStr ''6594726280552547846'')]"

definition ex_client :: client where
  "ex_client =
     \<lparr> this_config =
         \<lparr> cfg_baseURL = ''https://api2.musical.ly/'',
           cfg_host = ''api2.musical.ly'',
           cfg_userAgent =
             ''com.zhiliaoapp.musically/2018080704 (Linux; U; Android 7.1.2; en_US; Pixel; Build/NHG47Q; Cronet/58.0.2991.0)'',
           signURL = ex_signer \<rparr>,
       cookieJar = CookieJar [],
       request = \<lparr> defaults =
         \<lparr> url = None, http_method = None, baseURL = Some ''https://api2.musical.ly/'',
           headers =
             Some (JObj [(''host'', JStr ''api2.musical.ly''),
                         (''connection'', JStr ''keep-alive''),
                         (''accept-encoding'', JStr ''gzip''),
                         (''user-agent'', JStr
                            ''com.zhiliaoapp.musically/2018080704 (Linux; U; Android 7.1.2; en_US; Pixel; Build/NHG47Q; Cronet/58.0.2991.0)'')]),
           params = Some ex_reqParams, data = None,
           paramsSerializer = Some ex_serializer,
           transformResponse_field = Some (transformResponse Inr),
           jar = Some (CookieJar []), withCredentials = Some True \<rparr> \<rparr> \<rparr>"

definition ex_config :: config where
  "ex_config =
     \<lparr> url = Some ''aweme/v1/feed/'', http_method = Some ''get'',
       baseURL = Some ''https://api2.musical.ly/'', headers = None,
       params = Some (JObj [(''ts'', JNum 5), (''count'', JNum 20)]), data = None,
       paramsSerializer = Some ex_serializer, transformResponse_field = None,
       jar = Some (CookieJar []), withCredentials = Some True \<rparr>"

text \<open>
  The configuration the constructor builds that client from, the same request without a
  serializer and with a serializer that throws, and the same client after its default
  parameters were removed.
\<close>

definition ex_apiConfig :: api_config where
  "ex_apiConfig =
     \<lparr> api_baseURL = None, api_host = None, api_userAgent = None,
       api_signURL = Function ex_signer \<rparr>"

definition ex_noser :: config where
  "ex_noser = ex_config\<lparr>paramsSerializer := None\<rparr>"

definition ex_throwing :: config where
  "ex_throwing =
     ex_config\<lparr>paramsSerializer := Some (\<lambda>ps. Inl (Error ''cannot serialize''))\<rparr>"

definition ex_client_noparams :: client where
  "ex_client_noparams =
     ex_client\<lparr>request := \<lparr> defaults = (defaults (request ex_client))\<lparr>params := None\<rparr> \<rparr>\<rparr>"

section \<open>Properties of property lists and traces\<close>

lemma lookup_set_prop_same: "lookup_prop (set_prop k v ps) k = v"
  by (induction ps) auto

lemma lookup_set_prop_other: "k' \<noteq> k \<Longrightarrow> lookup_prop (set_prop k v ps) k' = lookup_prop ps k'"
  by (induction ps) auto

lemma sign_calls_append: "sign_calls (xs @ ys) = sign_calls xs @ sign_calls ys"
  by (induction xs rule: sign_calls.induct) auto

lemma serialized_append: "serialized (xs @ ys) = serialized xs @ serialized ys"
  by (induction xs rule: serialized.induct) auto

lemma fst_set_prop: "fst ` set (set_prop k v ps) = insert k (fst ` set ps)"
  by (induction k v ps rule: set_prop.induct) (auto simp: image_iff)

lemma distinct_set_prop: "distinct (map fst ps) \<Longrightarrow> distinct (map fst (set_prop k v ps))"
  by (induction k v ps rule: set_prop.induct) (auto simp: fst_set_prop)

lemma set_prop_mem_other:
  "k' \<noteq> k \<Longrightarrow> (k', x) \<in> set (set_prop k v ps) \<longleftrightarrow> (k', x) \<in> set ps"
  by (induction k v ps rule: set_prop.induct) auto

lemma set_prop_mem:
  "distinct (map fst ps) \<Longrightarrow> (k, x) \<in> set (set_prop k v ps) \<longleftrightarrow> x = v"
  by (induction k v ps rule: set_prop.induct) (auto simp: image_iff)

lemmas ex_defs = ex_client_def ex_config_def ex_world_def ex_signer_def ex_serializer_def
  ex_reqParams_def

lemmas run_defs = signRequest_def getTime_def emit_def async_def

lemma ex_run: "signRequest ex_client ex_config ex_world =
    (fst (signRequest ex_client ex_config ex_world), snd (signRequest ex_client ex_config ex_world))"
  by simp

lemma ex_has_serializer: "paramsSerializer ex_config = Some ex_serializer"
  by (simp add: ex_config_def)

lemma ex_client_constructed:
  "constructor ex_serializer Inr ex_reqParams ex_apiConfig None ex_world =
     (Returns ex_client,
      ex_world\<lparr>trace := [NewCookieJar, AxiosCreate, CookieJarSupport, UseRequestInterceptor]\<rparr>)"
  by (simp add: constructor_def default_userAgent_def member_string_def spread_config_def
                emit_def ex_apiConfig_def ex_reqParams_def ex_client_def ex_world_def)

lemma signRequest_advances:
  assumes "paramsSerializer cfg = Some serializer"
    and "signRequest this cfg w = (r, w')"
  shows "clock w' = clock w \<and> reads w' = Suc (Suc (reads w)) \<and>
         (\<exists>ps. serialized (trace w') = serialized (trace w) @ [JObj ps] \<and>
               lookup_prop ps ''ts'' = JNum (clock w (reads w) div 1000))"
  using assms
  by (auto simp: run_defs Let_def lookup_set_prop_same lookup_set_prop_other serialized_append
           split: sum.splits)

lemma collect_error:
  "collect rs = Inl e \<Longrightarrow> Inl e \<in> set rs"
  by (induction rs rule: collect.induct) (auto split: sum.splits)

lemma to_string_error:
  "to_string v = Inl e \<Longrightarrow> \<exists>m. e = TypeError m"
proof (induction v arbitrary: e rule: to_string.induct)
  case (6 xs)
  then obtain x where x: "x \<in> set xs"
    and conv: "(if x = JUndefined \<or> x = JNull then Inr [] else to_string x) = Inl e"
    by (auto split: sum.splits dest!: collect_error)
  then have "x \<noteq> JUndefined" "x \<noteq> JNull" "to_string x = Inl e"
    by (auto split: if_splits)
  with x "6.IH" show ?case by blast
qed (auto split: if_splits)

lemma member_string_error:
  "member_string v k = Inl e \<Longrightarrow> \<exists>m. e = TypeError m"
  by (cases v) (auto simp: member_string_def dest: to_string_error split: sum.splits)

lemma default_userAgent_error:
  "default_userAgent reqParams = Inl e \<Longrightarrow> \<exists>m. e = TypeError m"
  by (auto simp: default_userAgent_def dest: member_string_error split: sum.splits)

section \<open>The signing interceptor: what a successful signing returns\<close>

text \<open>
  Claim C1. Whenever \<open>signRequest\<close> completes successfully (the promise it returns is
  fulfilled with a configuration), the \<open>params\<close> of that configuration are the empty
  object, the signer was invoked once more than before, and the \<open>url\<close> of the configuration
  is exactly the string that invocation of the signer returned.
\<close>

theorem signRequest_success_url_params:
  assumes "signRequest this cfg w = (Returns (Fulfilled cfg'), w')"
  shows "params cfg' = Some (JObj []) \<and>
         (\<exists>u ts device_id signedURL.
            sign_calls (trace w') = sign_calls (trace w) @ [(u, ts, device_id)] \<and>
            signURL (this_config this) u ts device_id = Inr signedURL \<and>
            url cfg' = Some signedURL)"
  using assms
  by (auto simp: run_defs sign_calls_append Let_def split: option.splits sum.splits)

theorem signRequest_success_url_params_witness:
  "signRequest ex_client ex_config ex_world =
     (Returns (Fulfilled (ex_config\<lparr>
        url := Some ''https://api2.musical.ly/aweme/v1/feed/?ts=1541203200&count=20&_rticket=1541203201006&as=a1&cp=b2'',
        params := Some (JObj [])\<rparr>)),
      ex_world\<lparr>reads := 2,
        trace := [ClockRead 1541203200999, ClockRead 1541203201006,
          Serialize (JObj [(''ts'', JNum 1541203200), (''count'', JNum 20),
                           (''_rticket'', JNum 1541203201006)]),
          SignURL ''https://api2.musical.ly/aweme/v1/feed/?ts=1541203200&count=20&_rticket=1541203201006''
            1541203200 (JStr ''6594726280552547846'')]\<rparr>)
   \<and> params (ex_config\<lparr>
        url := Some ''https://api2.musical.ly/aweme/v1/feed/?ts=1541203200&count=20&_rticket=1541203201006&as=a1&cp=b2'',
        params := Some (JObj [])\<rparr>) = Some (JObj [])"
proof -
  have run: "signRequest ex_client ex_config ex_world =
     (Returns (Fulfilled (ex_config\<lparr>
        url := Some ''https://api2.musical.ly/aweme/v1/feed/?ts=1541203200&count=20&_rticket=1541203201006&as=a1&cp=b2'',
        params := Some (JObj [])\<rparr>)),
      ex_world\<lparr>reads := 2,
        trace := [ClockRead 1541203200999, ClockRead 1541203201006,
          Serialize (JObj [(''ts'', JNum 1541203200), (''count'', JNum 20),
                           (''_rticket'', JNum 1541203201006)]),
          SignURL ''https://api2.musical.ly/aweme/v1/feed/?ts=1541203200&count=20&_rticket=1541203201006''
            1541203200 (JStr ''6594726280552547846'')]\<rparr>)"
    by (simp add: run_defs ex_defs show_int_def digit_def)
  from signRequest_success_url_params [OF run] run show ?thesis by simp
qed

text \<open>
  Claim C10. \<open>signRequest\<close> changes only \<open>url\<close> and \<open>params\<close>: the configuration it returns
  is the input configuration with these two fields replaced, so \<^verbatim>\<open>method\<close>, \<open>baseURL\<close>,
  \<open>headers\<close>, \<open>data\<close>, \<open>paramsSerializer\<close>, \<^verbatim>\<open>transformResponse\<close>, \<open>jar\<close>,
  \<open>withCredentials\<close> and every remaining field (the \<open>more\<close> part of the record) are equal
  in both.
\<close>

theorem signRequest_frame:
  assumes "signRequest this cfg w = (Returns (Fulfilled cfg'), w')"
  shows "cfg' = cfg\<lparr>url := url cfg', params := params cfg'\<rparr> \<and>
         http_method cfg' = http_method cfg \<and> baseURL cfg' = baseURL cfg \<and>
         headers cfg' = headers cfg \<and> data cfg' = data cfg \<and>
         paramsSerializer cfg' = paramsSerializer cfg \<and>
         transformResponse_field cfg' = transformResponse_field cfg \<and>
         jar cfg' = jar cfg \<and> withCredentials cfg' = withCredentials cfg \<and>
         config.more cfg' = config.more cfg"
  using assms
  by (auto simp: run_defs Let_def split: option.splits sum.splits)

theorem signRequest_frame_witness:
  "fst (signRequest ex_client ex_config ex_world) =
     Returns (Fulfilled (ex_config\<lparr>
        url := Some ''https://api2.musical.ly/aweme/v1/feed/?ts=1541203200&count=20&_rticket=1541203201006&as=a1&cp=b2'',
        params := Some (JObj [])\<rparr>))
   \<and> http_method (ex_config\<lparr>
        url := Some ''https://api2.musical.ly/aweme/v1/feed/?ts=1541203200&count=20&_rticket=1541203201006&as=a1&cp=b2'',
        params := Some (JObj [])\<rparr>) = http_method ex_config
   \<and> paramsSerializer (ex_config\<lparr>
        url := Some ''https://api2.musical.ly/aweme/v1/feed/?ts=1541203200&count=20&_rticket=1541203201006&as=a1&cp=b2'',
        params := Some (JObj [])\<rparr>) = paramsSerializer ex_config"
proof -
  have result: "fst (signRequest ex_client ex_config ex_world) =
     Returns (Fulfilled (ex_config\<lparr>
        url := Some ''https://api2.musical.ly/aweme/v1/feed/?ts=1541203200&count=20&_rticket=1541203201006&as=a1&cp=b2'',
        params := Some (JObj [])\<rparr>))"
    by (simp add: run_defs ex_defs show_int_def digit_def)
  then have run: "signRequest ex_client ex_config ex_world =
     (Returns (Fulfilled (ex_config\<lparr>
        url := Some ''https://api2.musical.ly/aweme/v1/feed/?ts=1541203200&count=20&_rticket=1541203201006&as=a1&cp=b2'',
        params := Some (JObj [])\<rparr>)),
      snd (signRequest ex_client ex_config ex_world))"
    by (metis prod.collapse)
  from signRequest_frame [OF run] result show ?thesis
    by blast
qed

section \<open>The signing interceptor: the serializer guard\<close>

text \<open>
  Claim C5, as the code has it. When the configuration has no \<open>paramsSerializer\<close> function,
  \<open>signRequest\<close> fails with the error \<^verbatim>\<open>Missing required paramsSerializer function\<close> and
  leaves the world as it was: the clock is not read, nothing is serialized, the signer is
  not invoked, and no configuration is returned for the transport. The function being
  \<^verbatim>\<open>async\<close>, the error is the rejection of the promise it returns; it is not thrown to the
  caller synchronously, which the last statement below shows on the request without a
  serializer.
\<close>

theorem signRequest_missing_serializer:
  assumes "paramsSerializer cfg = None"
  shows "signRequest this cfg w =
           (Returns (Rejected (Error ''Missing required paramsSerializer function'')), w)"
  using assms by (simp add: run_defs)

theorem signRequest_missing_serializer_witness:
  "paramsSerializer (ex_config\<lparr>paramsSerializer := None\<rparr>) = None \<and>
   signRequest ex_client (ex_config\<lparr>paramsSerializer := None\<rparr>) ex_world =
     (Returns (Rejected (Error ''Missing required paramsSerializer function'')), ex_world)"
  using signRequest_missing_serializer [of "ex_config\<lparr>paramsSerializer := None\<rparr>" ex_client ex_world]
  by simp

theorem missing_serializer_rejects_not_throws:
  "\<not> throws_synchronously (fst (signRequest ex_client (ex_config\<lparr>paramsSerializer := None\<rparr>) ex_world))"
  by (simp add: run_defs)

section \<open>The signing interceptor: freshness fields\<close>

text \<open>
  Claim C3, as the code has it. For every request whose configuration has a
  \<open>paramsSerializer\<close> function, \<open>signRequest\<close> reads the clock twice and then serializes a
  parameter set in which \<^verbatim>\<open>ts\<close> is the first reading in whole seconds (the floor of the
  milliseconds divided by 1000) and \<^verbatim>\<open>_rticket\<close> is the second reading in milliseconds;
  every other key has the value the request's own parameters give it. Without a serializer
  nothing of this happens: on that request the trace stays empty and the clock is not read.
\<close>

theorem signRequest_injects_freshness:
  assumes "paramsSerializer cfg = Some serializer"
    and "signRequest this cfg w = (r, w')"
  shows "\<exists>ps rest.
           trace w' = trace w @ [ClockRead (clock w (reads w)),
                                 ClockRead (clock w (Suc (reads w))),
                                 Serialize (JObj ps)] @ rest
         \<and> lookup_prop ps ''ts'' = JNum (clock w (reads w) div 1000)
         \<and> lookup_prop ps ''_rticket'' = JNum (clock w (Suc (reads w)))
         \<and> (\<forall>k. k \<noteq> ''ts'' \<and> k \<noteq> ''_rticket'' \<longrightarrow>
                lookup_prop ps k = lookup_prop (spread (field (params cfg))) k)"
  using assms
  by (auto simp: run_defs Let_def lookup_set_prop_same lookup_set_prop_other
           split: sum.splits)

theorem signRequest_injects_freshness_witness:
  "\<exists>ps rest.
      trace (snd (signRequest ex_client ex_config ex_world)) =
        trace ex_world @ [ClockRead (clock ex_world (reads ex_world)),
                          ClockRead (clock ex_world (Suc (reads ex_world))),
                          Serialize (JObj ps)] @ rest
      \<and> lookup_prop ps ''ts'' = JNum (clock ex_world (reads ex_world) div 1000)
      \<and> lookup_prop ps ''_rticket'' = JNum (clock ex_world (Suc (reads ex_world)))
      \<and> lookup_prop ps ''count'' = lookup_prop (spread (field (params ex_config))) ''count''"
proof -
  from signRequest_injects_freshness [OF ex_has_serializer ex_run]
  obtain ps rest where
    t: "trace (snd (signRequest ex_client ex_config ex_world)) =
          trace ex_world @ [ClockRead (clock ex_world (reads ex_world)),
                            ClockRead (clock ex_world (Suc (reads ex_world))),
                            Serialize (JObj ps)] @ rest" and
    a: "lookup_prop ps ''ts'' = JNum (clock ex_world (reads ex_world) div 1000)" and
    b: "lookup_prop ps ''_rticket'' = JNum (clock ex_world (Suc (reads ex_world)))" and
    c: "\<forall>k. k \<noteq> ''ts'' \<and> k \<noteq> ''_rticket'' \<longrightarrow>
             lookup_prop ps k = lookup_prop (spread (field (params ex_config))) k"
    by blast
  from c have "lookup_prop ps ''count'' = lookup_prop (spread (field (params ex_config))) ''count''"
    by simp
  with t a b show ?thesis by blast
qed

theorem signRequest_no_serializer_no_freshness:
  "trace (snd (signRequest ex_client ex_noser ex_world)) = [] \<and>
   reads (snd (signRequest ex_client ex_noser ex_world)) = 0"
  by (simp add: run_defs ex_noser_def ex_world_def)

text \<open>
  Claim C9, as the code has it. For every request whose configuration has a
  \<open>paramsSerializer\<close> function and whose \<open>params\<close> are an object, the parameter set that is
  serialized has exactly one \<^verbatim>\<open>ts\<close> and one \<^verbatim>\<open>_rticket\<close>, and their values are the freshly
  generated timestamp and nonce: a value the caller supplied under either name is
  discarded. Without a serializer nothing is serialized, caller-supplied \<^verbatim>\<open>ts\<close> or not.
\<close>

theorem signRequest_freshness_overrides_caller:
  assumes "paramsSerializer cfg = Some serializer"
    and "params cfg = Some (JObj ps)"
    and "distinct (map fst ps)"
    and "signRequest this cfg w = (r, w')"
  shows "\<exists>qs.
           serialized (trace w') = serialized (trace w) @ [JObj qs]
         \<and> distinct (map fst qs)
         \<and> (\<forall>v. (''ts'', v) \<in> set qs \<longleftrightarrow> v = JNum (clock w (reads w) div 1000))
         \<and> (\<forall>v. (''_rticket'', v) \<in> set qs \<longleftrightarrow> v = JNum (clock w (Suc (reads w))))"
  using assms
  by (auto simp: run_defs Let_def serialized_append distinct_set_prop set_prop_mem
                 set_prop_mem_other
           split: sum.splits)

theorem signRequest_freshness_overrides_caller_witness:
  "params ex_config = Some (JObj [(''ts'', JNum 5), (''count'', JNum 20)]) \<and>
   distinct (map fst [(''ts'', JNum 5), (''count'', JNum (20::int))]) \<and>
   (\<exists>qs.
      serialized (trace (snd (signRequest ex_client ex_config ex_world))) =
        serialized (trace ex_world) @ [JObj qs]
    \<and> distinct (map fst qs)
    \<and> (\<forall>v. (''ts'', v) \<in> set qs \<longleftrightarrow> v = JNum (clock ex_world (reads ex_world) div 1000))
    \<and> (\<forall>v. (''_rticket'', v) \<in> set qs \<longleftrightarrow> v = JNum (clock ex_world (Suc (reads ex_world)))))"
proof -
  have p: "params ex_config = Some (JObj [(''ts'', JNum 5), (''count'', JNum 20)])"
    by (simp add: ex_config_def)
  have d: "distinct (map fst [(''ts'', JNum 5), (''count'', JNum (20::int))])"
    by simp
  from signRequest_freshness_overrides_caller [OF ex_has_serializer p d ex_run] p d
  show ?thesis by blast
qed

theorem signRequest_no_serializer_nothing_serialized:
  "params ex_noser = Some (JObj [(''ts'', JNum 5), (''count'', JNum 20)]) \<and>
   serialized (trace (snd (signRequest ex_client ex_noser ex_world))) = []"
  by (simp add: run_defs ex_noser_def ex_config_def ex_world_def)

text \<open>
  Claim C8. Two requests are signed one after the other by the same client, both with a
  serializer, the second starting in the world the first left. If the wall clock never goes
  back, the \<^verbatim>\<open>ts\<close> serialized for the second request is greater than or equal to the \<^verbatim>\<open>ts\<close>
  serialized for the first.
\<close>

theorem signRequest_ts_monotone:
  assumes mono: "\<forall>i j. i \<le> j \<longrightarrow> clock w i \<le> clock w j"
    and ser1: "paramsSerializer cfg1 = Some serializer1"
    and ser2: "paramsSerializer cfg2 = Some serializer2"
    and first: "signRequest this cfg1 w = (r1, w1)"
    and second: "signRequest this cfg2 w1 = (r2, w2)"
  shows "\<exists>ps1 ps2 ts1 ts2.
           serialized (trace w1) = serialized (trace w) @ [JObj ps1] \<and>
           serialized (trace w2) = serialized (trace w1) @ [JObj ps2] \<and>
           lookup_prop ps1 ''ts'' = JNum ts1 \<and>
           lookup_prop ps2 ''ts'' = JNum ts2 \<and>
           ts1 \<le> ts2"
proof -
  from signRequest_advances [OF ser1 first] obtain ps1 where
    w1: "clock w1 = clock w" "reads w1 = Suc (Suc (reads w))" and
    s1: "serialized (trace w1) = serialized (trace w) @ [JObj ps1]" and
    t1: "lookup_prop ps1 ''ts'' = JNum (clock w (reads w) div 1000)"
    by blast
  from signRequest_advances [OF ser2 second] obtain ps2 where
    s2: "serialized (trace w2) = serialized (trace w1) @ [JObj ps2]" and
    t2: "lookup_prop ps2 ''ts'' = JNum (clock w1 (reads w1) div 1000)"
    by blast
  from mono have "clock w (reads w) \<le> clock w (Suc (Suc (reads w)))"
    by simp
  then have "clock w (reads w) div 1000 \<le> clock w1 (reads w1) div 1000"
    using w1 by (simp add: zdiv_mono1)
  with s1 s2 t1 t2 show ?thesis by blast
qed

theorem signRequest_ts_monotone_witness:
  "\<exists>ps1 ps2 ts1 ts2.
      serialized (trace (snd (signRequest ex_client ex_config ex_world))) =
        serialized (trace ex_world) @ [JObj ps1] \<and>
      serialized (trace (snd (signRequest ex_client ex_config
                                (snd (signRequest ex_client ex_config ex_world))))) =
        serialized (trace (snd (signRequest ex_client ex_config ex_world))) @ [JObj ps2] \<and>
      lookup_prop ps1 ''ts'' = JNum ts1 \<and>
      lookup_prop ps2 ''ts'' = JNum ts2 \<and>
      ts1 \<le> ts2"
proof -
  have mono: "\<forall>i j. i \<le> j \<longrightarrow> clock ex_world i \<le> clock ex_world j"
    by (simp add: ex_world_def)
  have second: "signRequest ex_client ex_config (snd (signRequest ex_client ex_config ex_world)) =
    (fst (signRequest ex_client ex_config (snd (signRequest ex_client ex_config ex_world))),
     snd (signRequest ex_client ex_config (snd (signRequest ex_client ex_config ex_world))))"
    by simp
  show ?thesis
    by (rule signRequest_ts_monotone [OF mono ex_has_serializer ex_has_serializer ex_run second])
qed

section \<open>The signing interceptor: the call of the signer\<close>

text \<open>
  Claim C4, as the code has it. Take a request whose configuration has a
  \<open>paramsSerializer\<close> function, let \<open>ps\<close> be its parameters with the freshness fields set,
  and let the serializer return the string \<open>query\<close> for them; let the client's default
  parameters be neither \<^verbatim>\<open>undefined\<close> nor \<^verbatim>\<open>null\<close>. Then the signer is invoked exactly
  once. Its first argument is \<open>baseURL\<close>, the request path, \<^verbatim>\<open>?\<close> and \<open>query\<close>; its second
  argument is the \<^verbatim>\<open>ts\<close> of \<open>ps\<close>; its third is \<^verbatim>\<open>device_id\<close> of the client's default
  parameters. The signer is not invoked at all for a request without a serializer, by a
  client without default parameters, or when the serializer throws.
\<close>

theorem signRequest_invokes_signer_once:
  assumes "paramsSerializer cfg = Some serializer"
    and "ps = set_prop ''_rticket'' (JNum (clock w (Suc (reads w))))
               (set_prop ''ts'' (JNum (clock w (reads w) div 1000))
                  (spread (field (params cfg))))"
    and "serializer (JObj ps) = Inr query"
    and "get_member (field (params (defaults (request this)))) ''device_id'' = Inr device_id"
    and "signRequest this cfg w = (r, w')"
  shows "serialized (trace w') = serialized (trace w) @ [JObj ps]
       \<and> lookup_prop ps ''ts'' = JNum (clock w (reads w) div 1000)
       \<and> lookup_prop ps ''_rticket'' = JNum (clock w (Suc (reads w)))
       \<and> sign_calls (trace w') = sign_calls (trace w) @
             [(template (baseURL cfg) @ template (url cfg) @ ''?'' @ query,
               clock w (reads w) div 1000,
               device_id)]"
  using assms
  by (auto simp: run_defs Let_def lookup_set_prop_same lookup_set_prop_other
                 sign_calls_append serialized_append
           split: sum.splits)

theorem signRequest_invokes_signer_once_witness:
  "sign_calls (trace (snd (signRequest ex_client ex_config ex_world))) =
     sign_calls (trace ex_world) @
       [(template (baseURL ex_config) @ template (url ex_config) @ ''?'' @
           ''ts=1541203200&count=20&_rticket=1541203201006'',
         clock ex_world (reads ex_world) div 1000,
         JStr ''6594726280552547846'')]
   \<and> sign_calls (trace (snd (signRequest ex_client ex_config ex_world))) =
       [(''https://api2.musical.ly/aweme/v1/feed/?ts=1541203200&count=20&_rticket=1541203201006'',
         1541203200, JStr ''6594726280552547846'')]"
proof -
  have ps: "[(''ts'', JNum 1541203200), (''count'', JNum 20), (''_rticket'', JNum 1541203201006)] =
      set_prop ''_rticket'' (JNum (clock ex_world (Suc (reads ex_world))))
        (set_prop ''ts'' (JNum (clock ex_world (reads ex_world) div 1000))
           (spread (field (params ex_config))))"
    by (simp add: ex_world_def ex_config_def)
  have query: "ex_serializer
      (JObj [(''ts'', JNum 1541203200), (''count'', JNum 20), (''_rticket'', JNum 1541203201006)]) =
      Inr ''ts=1541203200&count=20&_rticket=1541203201006''"
    by (simp add: ex_serializer_def show_int_def digit_def)
  have dev: "get_member (field (params (defaults (request ex_client)))) ''device_id'' =
     Inr (JStr ''6594726280552547846'')"
    by (simp add: ex_client_def ex_reqParams_def)
  from signRequest_invokes_signer_once [OF ex_has_serializer ps query dev ex_run]
  have once: "sign_calls (trace (snd (signRequest ex_client ex_config ex_world))) =
     sign_calls (trace ex_world) @
       [(template (baseURL ex_config) @ template (url ex_config) @ ''?'' @
           ''ts=1541203200&count=20&_rticket=1541203201006'',
         clock ex_world (reads ex_world) div 1000,
         JStr ''6594726280552547846'')]"
    by blast
  then have "sign_calls (trace (snd (signRequest ex_client ex_config ex_world))) =
       [(''https://api2.musical.ly/aweme/v1/feed/?ts=1541203200&count=20&_rticket=1541203201006'',
         1541203200, JStr ''6594726280552547846'')]"
    by (simp add: ex_world_def ex_config_def)
  with once show ?thesis by (rule conjI)
qed

theorem signRequest_signer_not_invoked:
  "sign_calls (trace (snd (signRequest ex_client ex_noser ex_world))) = [] \<and>
   sign_calls (trace (snd (signRequest ex_client_noparams ex_config ex_world))) = [] \<and>
   sign_calls (trace (snd (signRequest ex_client ex_throwing ex_world))) = []"
  by (simp add: run_defs ex_noser_def ex_throwing_def ex_client_noparams_def ex_defs
                show_int_def digit_def)

section \<open>The constructor: the signer is required\<close>

text \<open>
  Claim C2. When \<open>signURL\<close> of the configuration is not a function, the constructor throws
  at once and leaves the world as it was: no cookie jar, no request instance, no
  interceptor. When \<open>signURL\<close> is a function, the constructor does not throw that error.
\<close>

theorem constructor_requires_signURL:
  "(api_signURL apiConfig = NotFunction v \<longrightarrow>
      constructor serializer JSONBig_parse reqParams apiConfig requestConfig w =
        (Throws (Error ''You must supply a signURL function to the TikTokAPI config''), w))
   \<and> (api_signURL apiConfig = Function f \<longrightarrow>
      fst (constructor serializer JSONBig_parse reqParams apiConfig requestConfig w) \<noteq>
        Throws (Error ''You must supply a signURL function to the TikTokAPI config''))"
proof (intro conjI impI)
  assume "api_signURL apiConfig = NotFunction v"
  then show "constructor serializer JSONBig_parse reqParams apiConfig requestConfig w =
        (Throws (Error ''You must supply a signURL function to the TikTokAPI config''), w)"
    by (simp add: constructor_def)
next
  assume f: "api_signURL apiConfig = Function f"
  show "fst (constructor serializer JSONBig_parse reqParams apiConfig requestConfig w) \<noteq>
        Throws (Error ''You must supply a signURL function to the TikTokAPI config'')"
  proof (cases "default_userAgent reqParams")
    case (Inl e)
    then obtain m where "e = TypeError m" using default_userAgent_error by blast
    with Inl f show ?thesis by (simp add: constructor_def)
  next
    case (Inr ua)
    with f show ?thesis by (simp add: constructor_def Let_def)
  qed
qed

theorem constructor_requires_signURL_witness:
  "constructor ex_serializer Inr ex_reqParams
      (ex_apiConfig\<lparr>api_signURL := NotFunction JUndefined\<rparr>) None ex_world =
        (Throws (Error ''You must supply a signURL function to the TikTokAPI config''), ex_world)
   \<and> fst (constructor ex_serializer Inr ex_reqParams ex_apiConfig None ex_world) \<noteq>
        Throws (Error ''You must supply a signURL function to the TikTokAPI config'')
   \<and> fst (constructor ex_serializer Inr ex_reqParams ex_apiConfig None ex_world) =
        Returns ex_client"
proof -
  have a: "api_signURL (ex_apiConfig\<lparr>api_signURL := NotFunction JUndefined\<rparr>) = NotFunction JUndefined"
    by simp
  have b: "api_signURL ex_apiConfig = Function ex_signer"
    by (simp add: ex_apiConfig_def)
  from constructor_requires_signURL
         [of "ex_apiConfig\<lparr>api_signURL := NotFunction JUndefined\<rparr>" JUndefined
             ex_serializer Inr ex_reqParams None ex_world] a
  have first: "constructor ex_serializer Inr ex_reqParams
      (ex_apiConfig\<lparr>api_signURL := NotFunction JUndefined\<rparr>) None ex_world =
        (Throws (Error ''You must supply a signURL function to the TikTokAPI config''), ex_world)"
    by blast
  from constructor_requires_signURL
         [of ex_apiConfig JUndefined ex_serializer Inr ex_reqParams None ex_world ex_signer] b
  have second: "fst (constructor ex_serializer Inr ex_reqParams ex_apiConfig None ex_world) \<noteq>
        Throws (Error ''You must supply a signURL function to the TikTokAPI config'')"
    by blast
  have third: "fst (constructor ex_serializer Inr ex_reqParams ex_apiConfig None ex_world) =
        Returns ex_client"
    by (simp add: ex_client_constructed)
  from second third
  have "fst (constructor ex_serializer Inr ex_reqParams ex_apiConfig None ex_world) \<noteq>
          Throws (Error ''You must supply a signURL function to the TikTokAPI config'')
        \<and> fst (constructor ex_serializer Inr ex_reqParams ex_apiConfig None ex_world) =
          Returns ex_client"
    by (rule conjI)
  with first show ?thesis by (rule conjI)
qed

section \<open>Response decoding\<close>

text \<open>
  A non-empty string body goes to the parser, once, and the result of the parser, value or
  error, is the result of the decoding.
\<close>

lemma transformResponse_nonempty_string:
  "s \<noteq> [] \<Longrightarrow>
   transformResponse JSONBig_parse (JStr s) w =
     (JSONBig_parse (JStr s), emit (JSONBigParse (JStr s)) w)"
  by (simp add: transformResponse_def)


text \<open>
  Claim C7. An empty body (the empty string, an array of length zero, \<^verbatim>\<open>undefined\<close>,
  \<^verbatim>\<open>null\<close>) is returned unchanged, whatever the parser would do with it, and the world
  stays as it was: the parser is not called.
\<close>

theorem transformResponse_empty_body:
  assumes "body = JStr [] \<or> body = JArr [] \<or> body = JUndefined \<or> body = JNull"
  shows "transformResponse JSONBig_parse body w = (Inr body, w)"
  using assms by (auto simp: transformResponse_def)

theorem transformResponse_empty_body_witness:
  "transformResponse (\<lambda>d. Inl (Error ''Unexpected end of input'')) (JStr []) ex_world
     = (Inr (JStr []), ex_world)"
  using transformResponse_empty_body [of "JStr []" "\<lambda>d. Inl (Error ''Unexpected end of input'')" ex_world]
  by simp

end
